theory Spec2Isabelle
  imports Main "HOL-Library.Word"
begin

section \<open>The session engine of neo4j/session_with_context.go\<close>

text \<open>
  The session is a single-threaded orchestrator over collaborators that live outside
  the file: the connection pool, the router, the connections, the bookmark manager, the
  logger and the retry state of package retry. Each call into a collaborator is
  recorded as an \<open>event\<close> (with its arguments and its answer) at the end of a trace, and
  the answer of a collaborator is an arbitrary function of the trace so far and of the
  arguments, given by a record \<open>env\<close>. Every call appends an event, so two calls never
  see the same trace and a collaborator may answer each call differently.

  The Go \<open>context.Context\<close> (deadlines, cancellation), the bolt logger and panics of the
  work closure are not part of the model. A Go \<open>error\<close> that may be nil is an
  \<open>error option\<close>; a pair \<open>(value, error)\<close> is \<open>error + value\<close>.
\<close>

subsection \<open>Data\<close>

text \<open>\<open>time.Duration\<close> is a signed 64-bit integer; comparisons read it with \<open>sint\<close>.\<close>

type_synonym duration = "64 word"

text \<open>\<open>math.MinInt\<close> on a 64-bit platform, as a \<open>time.Duration\<close>.\<close>

definition MinInt :: duration where
  "MinInt = word_of_int (- (2 ^ 63))"

datatype AccessMode = WriteMode | ReadMode

type_synonym Bookmarks = "string list"

text \<open>The Go type \<open>any\<close> of a work result or of the notification filters: an opaque
  token, \<open>None\<close> for nil.\<close>

type_synonym any_value = "nat option"

text \<open>A pooled connection: its identity, and whether its dynamic type implements
  \<open>idb.DatabaseSelector\<close> (the type assertion in \<open>getConnection\<close>).\<close>

datatype conn = Conn (conn_id: nat) (is_DatabaseSelector: bool)

type_synonym txHandle = nat

text \<open>The error types the file creates or switches on; every other error of the driver
  is \<open>OtherError\<close>.\<close>

datatype error =
    UsageError (Message: string)
  | ConnectivityError string
  | TransactionExecutionLimit "error list" "string list"
  | OtherError string

fun isUsageOrConnectivity :: "error \<Rightarrow> bool" where
  "isUsageOrConnectivity (UsageError m) = True"
| "isUsageOrConnectivity (ConnectivityError m) = True"
| "isUsageOrConnectivity e = False"

record TransactionConfig =
  Timeout :: duration
  Metadata :: "(string \<times> nat) list"

record TxConfig =
  txc_Mode :: AccessMode
  txc_Bookmarks :: Bookmarks
  txc_Timeout :: duration
  txc_Meta :: "(string \<times> nat) list"
  txc_ImpersonatedUser :: string
  txc_NotificationFilters :: "string list"

text \<open>The fields of \<open>Config\<close> that the session reads.\<close>

record Config =
  MaxTransactionRetryTime :: duration
  ConnectionAcquisitionTimeout :: duration
  MaxConnectionPoolSize :: int
  cfg_FetchSize :: int

text \<open>
  Modelled from the spec: \<open>sessionBookmarks\<close> (the BookmarkTracker; bookmarks.go is not
  part of the sources at hand). It has an immutable initial bookmark set, a mutable
  current set, and an optional reference to an external bookmark authority.
\<close>

record sessionBookmarks =
  sb_hasManager :: bool
  sb_initial :: Bookmarks
  sb_current :: Bookmarks

text \<open>
  \<open>explicitTransaction\<close>: the fields set in \<open>BeginTransaction\<close>, the \<open>err\<close> field its
  \<open>onClosed\<close> callback writes, and the variable \<open>beginBookmarks\<close> the callback captures.
\<close>

record explicitTransaction =
  etx_conn :: conn
  etx_fetchSize :: int
  etx_txHandle :: txHandle
  etx_err :: "error option"
  etx_beginBookmarks :: Bookmarks

text \<open>
  \<open>autocommitTransaction\<close>: the connection, and the variable \<open>runBookmarks\<close> captured by
  the hook of its result.
\<close>

record autocommitTransaction =
  atx_conn :: conn
  atx_runBookmarks :: Bookmarks

record sessionWithContext =
  config :: Config
  defaultMode :: AccessMode
  bookmarks :: sessionBookmarks
  databaseName :: string
  impersonatedUser :: string
  resolveHomeDb :: bool
  explicitTx :: "explicitTransaction option"
  autocommitTx :: "autocommitTransaction option"
  throttleTime :: duration
  fetchSize :: int
  notificationFilters :: any_value

text \<open>The fields of \<open>retry.State\<close> that \<open>runRetriable\<close> sets or reads.\<close>

record retry_State =
  Errs :: "error list"
  Causes :: "string list"
  LastErr :: "error option"
  LastErrWasRetryable :: bool
  rs_MaxTransactionRetryTime :: duration
  rs_Throttle :: duration
  rs_MaxDeadConnections :: int
  rs_DatabaseName :: string

subsection \<open>Events and collaborators\<close>

datatype event =
    LogError error
  | LogWarn string error
  | LogDebug string
  | PoolBorrow "string list" bool int "error + conn"
  | PoolReturn conn "error option"
  | PoolCleanUp "error option"
  | RouterReaders string "error + string list"
  | RouterWriters string "error + string list"
  | RouterGetNameOfDefaultDatabase Bookmarks string "error + string"
  | RouterCleanUp "error option"
  | ConnSelectDatabase conn string
  | ConnTxBegin conn TxConfig "error + txHandle"
  | ConnTxCommit conn txHandle "error option"
  | ConnTxRollback conn txHandle "error option"
  | ConnRun conn string TxConfig "error + nat"
  | ConnBookmark conn "string \<times> string"
  | ResultBuffer conn
  | ResultConsume conn
  | ManagerGetBookmarks "string option" "error + Bookmarks"
  | ManagerUpdateBookmarks string Bookmarks string "error option"
  | Work conn txHandle "error + any_value"
  | RetryContinue bool
  | RetryOnFailure "conn option" error bool

type_synonym trace = "event list"

text \<open>
  The collaborators. \<open>wrapError\<close>, \<open>notificationFilterRawValuesOf\<close>,
  \<open>errorutil.CombineAllErrors\<close>, the constants \<open>idb.DefaultDatabase\<close> and
  \<open>pool.DefaultLivenessCheckThreshold\<close> and the methods \<open>Continue\<close> and \<open>OnFailure\<close> of
  \<open>retry.State\<close> are declared outside the file and are parameters as well.
  \<open>close_pool_first\<close> is the scheduler's choice in \<open>Close\<close>: which of the two goroutines
  performs its cleanup first.
\<close>

record env =
  wrapError :: "error \<Rightarrow> error"
  CombineAllErrors :: "error option list \<Rightarrow> error option"
  notificationFilterRawValuesOf :: "any_value \<Rightarrow> error + string list"
  DefaultDatabase :: string
  DefaultLivenessCheckThreshold :: int
  pool_Borrow :: "trace \<Rightarrow> string list \<Rightarrow> bool \<Rightarrow> int \<Rightarrow> error + conn"
  pool_Return :: "trace \<Rightarrow> conn \<Rightarrow> error option"
  pool_CleanUp :: "trace \<Rightarrow> error option"
  router_Readers :: "trace \<Rightarrow> string \<Rightarrow> error + string list"
  router_Writers :: "trace \<Rightarrow> string \<Rightarrow> error + string list"
  router_GetNameOfDefaultDatabase :: "trace \<Rightarrow> Bookmarks \<Rightarrow> string \<Rightarrow> error + string"
  router_CleanUp :: "trace \<Rightarrow> error option"
  conn_TxBegin :: "trace \<Rightarrow> conn \<Rightarrow> TxConfig \<Rightarrow> error + txHandle"
  conn_TxCommit :: "trace \<Rightarrow> conn \<Rightarrow> txHandle \<Rightarrow> error option"
  conn_TxRollback :: "trace \<Rightarrow> conn \<Rightarrow> txHandle \<Rightarrow> error option"
  conn_Run :: "trace \<Rightarrow> conn \<Rightarrow> string \<Rightarrow> TxConfig \<Rightarrow> error + nat"
  conn_Bookmark :: "trace \<Rightarrow> conn \<Rightarrow> string \<times> string"
  manager_GetBookmarks :: "trace \<Rightarrow> string option \<Rightarrow> error + Bookmarks"
  manager_UpdateBookmarks :: "trace \<Rightarrow> string \<Rightarrow> Bookmarks \<Rightarrow> string \<Rightarrow> error option"
  retry_Continue :: "trace \<Rightarrow> retry_State \<Rightarrow> bool \<times> retry_State"
  retry_OnFailure :: "trace \<Rightarrow> retry_State \<Rightarrow> conn option \<Rightarrow> error \<Rightarrow> bool \<Rightarrow> retry_State"
  close_pool_first :: "trace \<Rightarrow> bool"

text \<open>A unit of work (\<open>ManagedTransactionWork\<close>): what the closure returns, given the
  trace so far, the connection and the transaction handle of the attempt.\<close>

type_synonym ManagedTransactionWork = "trace \<Rightarrow> conn \<Rightarrow> txHandle \<Rightarrow> error + any_value"

text \<open>\<open>wrapError\<close> on an error that may be nil: nil stays nil.\<close>

definition wrapErrorOpt :: "env \<Rightarrow> error option \<Rightarrow> error option" where
  "wrapErrorOpt env e = map_option (wrapError env) e"

subsection \<open>Transaction configuration\<close>

definition defaultTransactionConfig :: TransactionConfig where
  "defaultTransactionConfig = \<lparr>Timeout = MinInt, Metadata = []\<rparr>"

text \<open>\<open>%d\<close> of \<open>fmt.Sprintf\<close> on a signed integer.\<close>

fun show_nat :: "nat \<Rightarrow> string" where
  "show_nat n =
     (if n < 10 then [''0123456789'' ! n]
      else show_nat (n div 10) @ [''0123456789'' ! (n mod 10)])"

definition show_int :: "int \<Rightarrow> string" where
  "show_int i = (if i < 0 then CHR ''-'' # show_nat (nat (- i)) else show_nat (nat i))"

definition negativeTimeoutMessage :: "duration \<Rightarrow> string" where
  "negativeTimeoutMessage t =
     ''Negative transaction timeouts are not allowed. Given: '' @ show_int (sint t)"

definition validateTransactionConfig :: "TransactionConfig \<Rightarrow> error option" where
  "validateTransactionConfig c =
     (if Timeout c \<noteq> MinInt \<and> sint (Timeout c) < 0
      then Some (UsageError (negativeTimeoutMessage (Timeout c)))
      else None)"

text \<open>The loop \<open>for _, c := range configurers { c(&config) }\<close>.\<close>

definition applyConfigurers ::
  "(TransactionConfig \<Rightarrow> TransactionConfig) list \<Rightarrow> TransactionConfig" where
  "applyConfigurers configurers = fold (\<lambda>c cfg. c cfg) configurers defaultTransactionConfig"

subsection \<open>Bookmarks\<close>

text \<open>
  Modelled from the spec: the methods of \<open>sessionBookmarks\<close> (bookmarks.go is not part of
  the sources at hand). \<open>currentBookmarks\<close> is the current set. \<open>replaceSessionBookmarks\<close>
  replaces the current set with the token the server returned, and is a no-op when the
  server returned nothing. \<open>replaceBookmarks\<close> does the same and, if an external authority
  is configured, notifies it of the transition from the sent bookmarks to the new one.
  \<open>allBookmarks\<close> is the union of the authority's bookmarks, if configured, and the
  session's own; \<open>bookmarksOfDatabase\<close> asks the authority for one database.
\<close>

definition currentBookmarks :: "sessionBookmarks \<Rightarrow> Bookmarks" where
  "currentBookmarks sb = sb_current sb"

definition replaceSessionBookmarks :: "string \<Rightarrow> sessionBookmarks \<Rightarrow> sessionBookmarks" where
  "replaceSessionBookmarks newBookmark sb =
     (if newBookmark = [] then sb else sb\<lparr>sb_current := [newBookmark]\<rparr>)"

definition replaceBookmarks ::
  "env \<Rightarrow> string \<Rightarrow> Bookmarks \<Rightarrow> string \<Rightarrow> sessionBookmarks \<Rightarrow> trace
     \<Rightarrow> error option \<times> sessionBookmarks \<times> trace" where
  "replaceBookmarks env db sentBookmarks newBookmark sb tr =
     (if newBookmark = [] then (None, sb, tr)
      else
        let sb1 = sb\<lparr>sb_current := [newBookmark]\<rparr> in
        if sb_hasManager sb then
          let r = manager_UpdateBookmarks env tr db sentBookmarks newBookmark in
          (r, sb1, tr @ [ManagerUpdateBookmarks db sentBookmarks newBookmark r])
        else (None, sb1, tr))"

definition bookmarksOfManager ::
  "env \<Rightarrow> string option \<Rightarrow> sessionBookmarks \<Rightarrow> trace \<Rightarrow> (error + Bookmarks) \<times> trace" where
  "bookmarksOfManager env db sb tr =
     (if sb_hasManager sb then
        let r = manager_GetBookmarks env tr db in (r, tr @ [ManagerGetBookmarks db r])
      else (Inr [], tr))"

definition allBookmarks ::
  "env \<Rightarrow> sessionBookmarks \<Rightarrow> trace \<Rightarrow> (error + Bookmarks) \<times> trace" where
  "allBookmarks env sb tr =
     (case bookmarksOfManager env None sb tr of
        (Inl err, tr1) \<Rightarrow> (Inl err, tr1)
      | (Inr bs, tr1) \<Rightarrow> (Inr (remdups (bs @ sb_current sb)), tr1))"

definition bookmarksOfDatabase ::
  "env \<Rightarrow> string \<Rightarrow> sessionBookmarks \<Rightarrow> trace \<Rightarrow> (error + Bookmarks) \<times> trace" where
  "bookmarksOfDatabase env db sb tr = bookmarksOfManager env (Some db) sb tr"

text \<open>\<open>collection.NewSet(a)\<close>, \<open>AddAll(b)\<close>, \<open>Values()\<close>: the elements of both, each once.\<close>

definition setUnionValues :: "Bookmarks \<Rightarrow> Bookmarks \<Rightarrow> Bookmarks" where
  "setUnionValues a b = remdups (a @ b)"

definition transactionBookmarks ::
  "env \<Rightarrow> sessionWithContext \<Rightarrow> trace \<Rightarrow> (error + Bookmarks) \<times> trace" where
  "transactionBookmarks env s tr =
     (case allBookmarks env (bookmarks s) tr of
        (Inl err, tr1) \<Rightarrow> (Inl err, tr1)
      | (Inr bs, tr1) \<Rightarrow> (Inr (setUnionValues bs (currentBookmarks (bookmarks s))), tr1))"

definition routingBookmarks ::
  "env \<Rightarrow> sessionWithContext \<Rightarrow> trace \<Rightarrow> (error + Bookmarks) \<times> trace" where
  "routingBookmarks env s tr =
     (case bookmarksOfDatabase env ''system'' (bookmarks s) tr of
        (Inl err, tr1) \<Rightarrow> (Inl err, tr1)
      | (Inr systemBookmarks, tr1) \<Rightarrow>
          (Inr (setUnionValues systemBookmarks (currentBookmarks (bookmarks s))), tr1))"

definition retrieveBookmarks ::
  "env \<Rightarrow> conn option \<Rightarrow> Bookmarks \<Rightarrow> sessionWithContext \<Rightarrow> trace
     \<Rightarrow> error option \<times> sessionWithContext \<times> trace" where
  "retrieveBookmarks env c sentBookmarks s tr =
     (case c of
        None \<Rightarrow> (None, s, tr)
      | Some cn \<Rightarrow>
          let r = conn_Bookmark env tr cn;
              tr1 = tr @ [ConnBookmark cn r];
              db = (if snd r \<noteq> [] then snd r else databaseName s)
          in case replaceBookmarks env db sentBookmarks (fst r) (bookmarks s) tr1 of
               (e, sb, tr2) \<Rightarrow> (e, s\<lparr>bookmarks := sb\<rparr>, tr2))"

definition retrieveSessionBookmarks ::
  "env \<Rightarrow> conn option \<Rightarrow> sessionWithContext \<Rightarrow> trace \<Rightarrow> sessionWithContext \<times> trace" where
  "retrieveSessionBookmarks env c s tr =
     (case c of
        None \<Rightarrow> (s, tr)
      | Some cn \<Rightarrow>
          let r = conn_Bookmark env tr cn
          in (s\<lparr>bookmarks := replaceSessionBookmarks (fst r) (bookmarks s)\<rparr>,
              tr @ [ConnBookmark cn r]))"

subsection \<open>Acquiring a connection\<close>

definition resolveHomeDatabase ::
  "env \<Rightarrow> sessionWithContext \<Rightarrow> trace \<Rightarrow> error option \<times> sessionWithContext \<times> trace" where
  "resolveHomeDatabase env s tr =
     (if \<not> resolveHomeDb s then (None, s, tr)
      else
        case routingBookmarks env s tr of
          (Inl err, tr1) \<Rightarrow> (Some err, s, tr1)
        | (Inr bms, tr1) \<Rightarrow>
            let r = router_GetNameOfDefaultDatabase env tr1 bms (impersonatedUser s);
                tr2 = tr1 @ [RouterGetNameOfDefaultDatabase bms (impersonatedUser s) r]
            in case r of
                 Inl err \<Rightarrow> (Some err, s, tr2)
               | Inr defaultDb \<Rightarrow>
                   (None, s\<lparr>databaseName := defaultDb, resolveHomeDb := False\<rparr>,
                    tr2 @ [LogDebug ''Resolved home database, uses db '']))"

definition getServers ::
  "env \<Rightarrow> AccessMode \<Rightarrow> sessionWithContext \<Rightarrow> trace \<Rightarrow> (error + string list) \<times> trace" where
  "getServers env mode s tr =
     (if mode = ReadMode then
        let r = router_Readers env tr (databaseName s)
        in (r, tr @ [RouterReaders (databaseName s) r])
      else
        let r = router_Writers env tr (databaseName s)
        in (r, tr @ [RouterWriters (databaseName s) r]))"

text \<open>The first block of \<open>getConnection\<close>: with an acquisition timeout configured, the
  timeout and the resolved deadline are logged (the deadline itself bounds real time and
  is not modelled).\<close>

definition acquisitionTimeoutLog :: "sessionWithContext \<Rightarrow> trace \<Rightarrow> trace" where
  "acquisitionTimeoutLog s tr =
     (if 0 < sint (ConnectionAcquisitionTimeout (config s))
      then tr @ [LogDebug ''connection acquisition timeout is: '',
                 LogDebug ''connection acquisition resolved deadline is: '']
      else tr)"

text \<open>\<open>getConnection\<close> after the home database is resolved: the servers are asked for, a
  connection is borrowed and the database is selected on it.\<close>

definition getConnection_resolved ::
  "env \<Rightarrow> AccessMode \<Rightarrow> int \<Rightarrow> sessionWithContext \<Rightarrow> trace \<Rightarrow> (error + conn) \<times> trace" where
  "getConnection_resolved env mode livenessCheckThreshold s tr =
     (case getServers env mode s tr of
        (Inl err, tr2) \<Rightarrow> (Inl (wrapError env err), tr2)
      | (Inr servers, tr2) \<Rightarrow>
          let wait = (ConnectionAcquisitionTimeout (config s) \<noteq> 0);
              r = pool_Borrow env tr2 servers wait livenessCheckThreshold;
              tr3 = tr2 @ [PoolBorrow servers wait livenessCheckThreshold r]
          in case r of
               Inl err \<Rightarrow> (Inl (wrapError env err), tr3)
             | Inr cn \<Rightarrow>
                 if databaseName s \<noteq> DefaultDatabase env then
                   if \<not> is_DatabaseSelector cn then
                     (Inl (UsageError ''Database does not support multi-database''),
                      tr3 @ [PoolReturn cn (pool_Return env tr3 cn)])
                   else (Inr cn, tr3 @ [ConnSelectDatabase cn (databaseName s)])
                 else (Inr cn, tr3))"

definition getConnection ::
  "env \<Rightarrow> AccessMode \<Rightarrow> int \<Rightarrow> sessionWithContext \<Rightarrow> trace
     \<Rightarrow> (error + conn) \<times> sessionWithContext \<times> trace" where
  "getConnection env mode livenessCheckThreshold s tr =
     (case resolveHomeDatabase env s (acquisitionTimeoutLog s tr) of
        (Some err, s1, tr1) \<Rightarrow> (Inl (wrapError env err), s1, tr1)
      | (None, s1, tr1) \<Rightarrow>
          (case getConnection_resolved env mode livenessCheckThreshold s1 tr1 of
             (r, tr2) \<Rightarrow> (r, s1, tr2)))"

subsection \<open>Transaction wrappers\<close>

text \<open>The closure \<open>onClosed\<close> that \<open>Run\<close> gives the autocommit transaction.\<close>

definition autocommit_onClosed ::
  "env \<Rightarrow> autocommitTransaction \<Rightarrow> sessionWithContext \<Rightarrow> trace \<Rightarrow> sessionWithContext \<times> trace" where
  "autocommit_onClosed env tx s tr =
     (s\<lparr>autocommitTx := None\<rparr>,
      tr @ [PoolReturn (atx_conn tx) (pool_Return env tr (atx_conn tx))])"

text \<open>The hook that \<open>Run\<close> gives the result of the autocommit transaction.\<close>

definition autocommit_afterConsumption ::
  "env \<Rightarrow> autocommitTransaction \<Rightarrow> sessionWithContext \<Rightarrow> trace \<Rightarrow> sessionWithContext \<times> trace" where
  "autocommit_afterConsumption env tx s tr =
     (case retrieveBookmarks env (Some (atx_conn tx)) (atx_runBookmarks tx) s tr of
        (Some err, s1, tr1) \<Rightarrow>
          (s1, tr1 @ [LogWarn ''could not retrieve bookmarks after result consumption'' err])
      | (None, s1, tr1) \<Rightarrow> (s1, tr1))"

text \<open>
  Modelled from the spec: \<open>autocommitTransaction.done\<close> and \<open>discard\<close> (transaction.go is
  not part of the sources at hand). A pending autocommit transaction is finalized
  silently, with no error: its result is buffered (\<open>done\<close>) or consumed (\<open>discard\<close>), which
  merges any returned bookmark through the hook of the result, and its completion
  callback returns the connection and clears the session's reference.
\<close>

definition autocommit_done ::
  "env \<Rightarrow> autocommitTransaction \<Rightarrow> sessionWithContext \<Rightarrow> trace \<Rightarrow> sessionWithContext \<times> trace" where
  "autocommit_done env tx s tr =
     (case autocommit_afterConsumption env tx s (tr @ [ResultBuffer (atx_conn tx)]) of
        (s1, tr1) \<Rightarrow> autocommit_onClosed env tx s1 tr1)"

definition autocommit_discard ::
  "env \<Rightarrow> autocommitTransaction \<Rightarrow> sessionWithContext \<Rightarrow> trace \<Rightarrow> sessionWithContext \<times> trace" where
  "autocommit_discard env tx s tr =
     (case autocommit_afterConsumption env tx s (tr @ [ResultConsume (atx_conn tx)]) of
        (s1, tr1) \<Rightarrow> autocommit_onClosed env tx s1 tr1)"

text \<open>The statement \<open>if s.autocommitTx != nil { s.autocommitTx.done(ctx) }\<close>.\<close>

definition finalizeAutocommit ::
  "env \<Rightarrow> sessionWithContext \<Rightarrow> trace \<Rightarrow> sessionWithContext \<times> trace" where
  "finalizeAutocommit env s tr =
     (case autocommitTx s of None \<Rightarrow> (s, tr) | Some tx \<Rightarrow> autocommit_done env tx s tr)"

text \<open>The closure \<open>onClosed\<close> that \<open>BeginTransaction\<close> gives the explicit transaction; it
  returns the transaction with its \<open>err\<close> field updated.\<close>

definition explicit_onClosed ::
  "env \<Rightarrow> explicitTransaction \<Rightarrow> sessionWithContext \<Rightarrow> trace
     \<Rightarrow> explicitTransaction \<times> sessionWithContext \<times> trace" where
  "explicit_onClosed env tx s tr =
     (case retrieveBookmarks env (Some (etx_conn tx)) (etx_beginBookmarks tx) s tr of
        (bookmarkErr, s1, tr1) \<Rightarrow>
          let poolErr = pool_Return env tr1 (etx_conn tx)
          in (tx\<lparr>etx_err := CombineAllErrors env [etx_err tx, bookmarkErr, poolErr]\<rparr>,
              s1\<lparr>explicitTx := None\<rparr>,
              tr1 @ [PoolReturn (etx_conn tx) poolErr]))"

text \<open>
  Modelled from the spec: \<open>explicitTransaction.Commit\<close>, \<open>Rollback\<close> and \<open>Close\<close>
  (transaction.go is not part of the sources at hand). The transaction is committed or
  rolled back on its connection, its completion callback is invoked, and the error
  collected in the transaction is returned.
\<close>

definition explicitTransaction_Commit ::
  "env \<Rightarrow> explicitTransaction \<Rightarrow> sessionWithContext \<Rightarrow> trace
     \<Rightarrow> error option \<times> sessionWithContext \<times> trace" where
  "explicitTransaction_Commit env tx s tr =
     (let r = conn_TxCommit env tr (etx_conn tx) (etx_txHandle tx)
      in case explicit_onClosed env (tx\<lparr>etx_err := r\<rparr>) s
                (tr @ [ConnTxCommit (etx_conn tx) (etx_txHandle tx) r]) of
           (tx1, s1, tr1) \<Rightarrow> (etx_err tx1, s1, tr1))"

definition explicitTransaction_Rollback ::
  "env \<Rightarrow> explicitTransaction \<Rightarrow> sessionWithContext \<Rightarrow> trace
     \<Rightarrow> error option \<times> sessionWithContext \<times> trace" where
  "explicitTransaction_Rollback env tx s tr =
     (let r = conn_TxRollback env tr (etx_conn tx) (etx_txHandle tx)
      in case explicit_onClosed env (tx\<lparr>etx_err := r\<rparr>) s
                (tr @ [ConnTxRollback (etx_conn tx) (etx_txHandle tx) r]) of
           (tx1, s1, tr1) \<Rightarrow> (etx_err tx1, s1, tr1))"

definition explicitTransaction_Close ::
  "env \<Rightarrow> explicitTransaction \<Rightarrow> sessionWithContext \<Rightarrow> trace
     \<Rightarrow> error option \<times> sessionWithContext \<times> trace" where
  "explicitTransaction_Close env tx s tr = explicitTransaction_Rollback env tx s tr"

subsection \<open>Session operations\<close>

text \<open>Modelled from the spec: \<open>newSessionBookmarks\<close> (bookmarks.go): the initial set is
  the set given at session creation, and so is the current set until a transaction
  completes.\<close>

definition newSessionBookmarks :: "bool \<Rightarrow> Bookmarks \<Rightarrow> sessionBookmarks" where
  "newSessionBookmarks hasManager bms =
     \<lparr>sb_hasManager = hasManager, sb_initial = bms, sb_current = bms\<rparr>"

record SessionConfig =
  sc_AccessMode :: AccessMode
  sc_Bookmarks :: Bookmarks
  sc_DatabaseName :: string
  sc_FetchSize :: int
  sc_ImpersonatedUser :: string
  sc_BookmarkManager :: bool
  sc_NotificationFilters :: any_value

definition FetchDefault :: int where
  "FetchDefault = 0"

definition newSessionWithContext ::
  "Config \<Rightarrow> SessionConfig \<Rightarrow> trace \<Rightarrow> sessionWithContext \<times> trace" where
  "newSessionWithContext cfg sessConfig tr =
     (\<lparr>config = cfg,
       defaultMode = sc_AccessMode sessConfig,
       bookmarks = newSessionBookmarks (sc_BookmarkManager sessConfig) (sc_Bookmarks sessConfig),
       databaseName = sc_DatabaseName sessConfig,
       impersonatedUser = sc_ImpersonatedUser sessConfig,
       resolveHomeDb = (sc_DatabaseName sessConfig = []),
       explicitTx = None,
       autocommitTx = None,
       throttleTime = 1000000000,
       fetchSize = (if sc_FetchSize sessConfig \<noteq> FetchDefault
                    then sc_FetchSize sessConfig else cfg_FetchSize cfg),
       notificationFilters = sc_NotificationFilters sessConfig\<rparr>,
      tr @ [LogDebug ''Created with context''])"

definition LastBookmarks ::
  "env \<Rightarrow> sessionWithContext \<Rightarrow> trace \<Rightarrow> Bookmarks \<times> sessionWithContext \<times> trace" where
  "LastBookmarks env s tr =
     (case (case autocommitTx s of
              None \<Rightarrow> (s, tr)
            | Some tx \<Rightarrow> retrieveSessionBookmarks env (Some (atx_conn tx)) s tr) of
        (s1, tr1) \<Rightarrow> (currentBookmarks (bookmarks s1), s1, tr1))"

text \<open>\<open>BeginTransaction\<close> from the point where a connection is asked for.\<close>

definition BeginTransaction_open ::
  "env \<Rightarrow> TransactionConfig \<Rightarrow> string list \<Rightarrow> sessionWithContext \<Rightarrow> trace
     \<Rightarrow> (error + explicitTransaction) \<times> sessionWithContext \<times> trace" where
  "BeginTransaction_open env cfg sessionNotificationFilters s tr =
     (case getConnection env (defaultMode s) (DefaultLivenessCheckThreshold env) s tr of
        (Inl err, s1, tr1) \<Rightarrow> (Inl (wrapError env err), s1, tr1)
      | (Inr cn, s1, tr1) \<Rightarrow>
          (case transactionBookmarks env s1 tr1 of
             (Inl err, tr2) \<Rightarrow>
               (Inl (wrapError env err), s1, tr2 @ [PoolReturn cn (pool_Return env tr2 cn)])
           | (Inr beginBookmarks, tr2) \<Rightarrow>
               let txc = \<lparr>txc_Mode = defaultMode s1, txc_Bookmarks = beginBookmarks,
                          txc_Timeout = Timeout cfg, txc_Meta = Metadata cfg,
                          txc_ImpersonatedUser = impersonatedUser s1,
                          txc_NotificationFilters = sessionNotificationFilters\<rparr>;
                   r = conn_TxBegin env tr2 cn txc;
                   tr3 = tr2 @ [ConnTxBegin cn txc r]
               in case r of
                    Inl err \<Rightarrow>
                      (Inl (wrapError env err), s1,
                       tr3 @ [PoolReturn cn (pool_Return env tr3 cn)])
                  | Inr h \<Rightarrow>
                      let tx = \<lparr>etx_conn = cn, etx_fetchSize = fetchSize s1, etx_txHandle = h,
                                etx_err = None, etx_beginBookmarks = beginBookmarks\<rparr>
                      in (Inr tx, s1\<lparr>explicitTx := Some tx\<rparr>, tr3)))"

definition BeginTransaction ::
  "env \<Rightarrow> (TransactionConfig \<Rightarrow> TransactionConfig) list \<Rightarrow> sessionWithContext \<Rightarrow> trace
     \<Rightarrow> (error + explicitTransaction) \<times> sessionWithContext \<times> trace" where
  "BeginTransaction env configurers s tr =
     (if explicitTx s \<noteq> None then
        let err = UsageError ''Session already has a pending transaction''
        in (Inl err, s, tr @ [LogError err])
      else
        case finalizeAutocommit env s tr of
          (s0, tr0) \<Rightarrow>
            (case notificationFilterRawValuesOf env (notificationFilters s0) of
               Inl err \<Rightarrow> (Inl err, s0, tr0)
             | Inr sessionNotificationFilters \<Rightarrow>
                 (case validateTransactionConfig (applyConfigurers configurers) of
                    Some err \<Rightarrow> (Inl err, s0, tr0)
                  | None \<Rightarrow>
                      BeginTransaction_open env (applyConfigurers configurers)
                        sessionNotificationFilters s0 tr0)))"

text \<open>\<open>Run\<close> from the point where a connection is asked for. The query parameters are
  passed through to the connection untouched and are left out.\<close>

definition Run_open ::
  "env \<Rightarrow> string \<Rightarrow> TransactionConfig \<Rightarrow> string list \<Rightarrow> sessionWithContext \<Rightarrow> trace
     \<Rightarrow> (error + nat) \<times> sessionWithContext \<times> trace" where
  "Run_open env cypher cfg sessionNotificationFilters s tr =
     (case getConnection env (defaultMode s) (DefaultLivenessCheckThreshold env) s tr of
        (Inl err, s1, tr1) \<Rightarrow> (Inl (wrapError env err), s1, tr1)
      | (Inr cn, s1, tr1) \<Rightarrow>
          (case transactionBookmarks env s1 tr1 of
             (Inl err, tr2) \<Rightarrow>
               (Inl (wrapError env err), s1, tr2 @ [PoolReturn cn (pool_Return env tr2 cn)])
           | (Inr runBookmarks, tr2) \<Rightarrow>
               let txc = \<lparr>txc_Mode = defaultMode s1, txc_Bookmarks = runBookmarks,
                          txc_Timeout = Timeout cfg, txc_Meta = Metadata cfg,
                          txc_ImpersonatedUser = impersonatedUser s1,
                          txc_NotificationFilters = sessionNotificationFilters\<rparr>;
                   r = conn_Run env tr2 cn cypher txc;
                   tr3 = tr2 @ [ConnRun cn cypher txc r]
               in case r of
                    Inl err \<Rightarrow>
                      (Inl (wrapError env err), s1,
                       tr3 @ [PoolReturn cn (pool_Return env tr3 cn)])
                  | Inr stream \<Rightarrow>
                      (Inr stream,
                       s1\<lparr>autocommitTx :=
                            Some \<lparr>atx_conn = cn, atx_runBookmarks = runBookmarks\<rparr>\<rparr>,
                       tr3)))"

definition Run ::
  "env \<Rightarrow> string \<Rightarrow> (TransactionConfig \<Rightarrow> TransactionConfig) list \<Rightarrow> sessionWithContext
     \<Rightarrow> trace \<Rightarrow> (error + nat) \<times> sessionWithContext \<times> trace" where
  "Run env cypher configurers s tr =
     (if explicitTx s \<noteq> None then
        let err = UsageError
                    ''Trying to run auto-commit transaction while in explicit transaction''
        in (Inl err, s, tr @ [LogError err])
      else
        case finalizeAutocommit env s tr of
          (s0, tr0) \<Rightarrow>
            (case notificationFilterRawValuesOf env (notificationFilters s0) of
               Inl err \<Rightarrow> (Inl err, s0, tr0)
             | Inr sessionNotificationFilters \<Rightarrow>
                 (case validateTransactionConfig (applyConfigurers configurers) of
                    Some err \<Rightarrow> (Inl err, s0, tr0)
                  | None \<Rightarrow>
                      Run_open env cypher (applyConfigurers configurers)
                        sessionNotificationFilters s0 tr0)))"

subsection \<open>The retry loop\<close>

text \<open>A call \<open>state.OnFailure(ctx, conn, err, isCommitting)\<close>.\<close>

definition OnFailure ::
  "env \<Rightarrow> conn option \<Rightarrow> error \<Rightarrow> bool \<Rightarrow> retry_State \<Rightarrow> trace \<Rightarrow> retry_State \<times> trace" where
  "OnFailure env c err isCommitting st tr =
     (retry_OnFailure env tr st c err isCommitting, tr @ [RetryOnFailure c err isCommitting])"

text \<open>\<open>executeTransactionFunction\<close> after the connection is borrowed, up to the deferred
  return of the connection.\<close>

definition executeTransactionFunction_conn ::
  "env \<Rightarrow> AccessMode \<Rightarrow> TransactionConfig \<Rightarrow> string list \<Rightarrow> ManagedTransactionWork \<Rightarrow> conn
     \<Rightarrow> retry_State \<Rightarrow> sessionWithContext \<Rightarrow> trace
     \<Rightarrow> (bool \<times> any_value) \<times> retry_State \<times> sessionWithContext \<times> trace" where
  "executeTransactionFunction_conn env mode cfg filters work cn st s tr =
     (case transactionBookmarks env s tr of
        (Inl err, tr2) \<Rightarrow>
          (case OnFailure env (Some cn) err False st tr2 of
             (st1, tr3) \<Rightarrow> ((True, None), st1, s, tr3))
      | (Inr beginBookmarks, tr2) \<Rightarrow>
          let txc = \<lparr>txc_Mode = mode, txc_Bookmarks = beginBookmarks,
                     txc_Timeout = Timeout cfg, txc_Meta = Metadata cfg,
                     txc_ImpersonatedUser = impersonatedUser s,
                     txc_NotificationFilters = filters\<rparr>;
              r = conn_TxBegin env tr2 cn txc;
              tr3 = tr2 @ [ConnTxBegin cn txc r]
          in case r of
               Inl err \<Rightarrow>
                 (case OnFailure env (Some cn) err False st tr3 of
                    (st1, tr4) \<Rightarrow> ((True, None), st1, s, tr4))
             | Inr h \<Rightarrow>
                 let w = work tr3 cn h;
                     tr4 = tr3 @ [Work cn h w]
                 in case w of
                      Inl err \<Rightarrow>
                        (case OnFailure env (Some cn) err False st tr4 of
                           (st1, tr5) \<Rightarrow> ((True, None), st1, s, tr5))
                    | Inr x \<Rightarrow>
                        let c = conn_TxCommit env tr4 cn h;
                            tr5 = tr4 @ [ConnTxCommit cn h c]
                        in case c of
                             Some err \<Rightarrow>
                               (case OnFailure env (Some cn) err True st tr5 of
                                  (st1, tr6) \<Rightarrow> ((True, None), st1, s, tr6))
                           | None \<Rightarrow>
                               (case retrieveBookmarks env (Some cn) beginBookmarks s tr5 of
                                  (Some err, s1, tr6) \<Rightarrow>
                                    ((False, x), st, s1,
                                     tr6 @ [LogWarn
                                       ''could not retrieve bookmarks after successful commit''
                                       err])
                                | (None, s1, tr6) \<Rightarrow> ((False, x), st, s1, tr6)))"

definition executeTransactionFunction ::
  "env \<Rightarrow> AccessMode \<Rightarrow> TransactionConfig \<Rightarrow> string list \<Rightarrow> ManagedTransactionWork
     \<Rightarrow> retry_State \<Rightarrow> sessionWithContext \<Rightarrow> trace
     \<Rightarrow> (bool \<times> any_value) \<times> retry_State \<times> sessionWithContext \<times> trace" where
  "executeTransactionFunction env mode cfg filters work st s tr =
     (case getConnection env mode (DefaultLivenessCheckThreshold env) s tr of
        (Inl err, s1, tr1) \<Rightarrow>
          (case OnFailure env None err False st tr1 of
             (st1, tr2) \<Rightarrow> ((True, None), st1, s1, tr2))
      | (Inr cn, s1, tr1) \<Rightarrow>
          (case executeTransactionFunction_conn env mode cfg filters work cn st s1 tr1 of
             (res, st1, s2, tr2) \<Rightarrow>
               (res, st1, s2, tr2 @ [PoolReturn cn (pool_Return env tr2 cn)])))"

text \<open>
  The loop \<open>for state.Continue() { ... }\<close> of \<open>runRetriable\<close>. \<open>Continue\<close> is a parameter
  and may answer true for ever, so the loop takes fuel: \<open>None\<close> when the fuel runs out,
  \<open>Some (Some x, ...)\<close> when an attempt returned \<open>x\<close> from inside the loop,
  \<open>Some (None, ...)\<close> when \<open>Continue\<close> answered false.
\<close>

fun retryLoop ::
  "nat \<Rightarrow> env \<Rightarrow> AccessMode \<Rightarrow> TransactionConfig \<Rightarrow> string list \<Rightarrow> ManagedTransactionWork
     \<Rightarrow> retry_State \<Rightarrow> sessionWithContext \<Rightarrow> trace
     \<Rightarrow> (any_value option \<times> retry_State \<times> sessionWithContext \<times> trace) option" where
  "retryLoop 0 env mode cfg filters work st s tr = None"
| "retryLoop (Suc n) env mode cfg filters work st s tr =
     (case retry_Continue env tr st of
        (False, st1) \<Rightarrow> Some (None, st1, s, tr @ [RetryContinue False])
      | (True, st1) \<Rightarrow>
          (case executeTransactionFunction env mode cfg filters work st1 s
                  (tr @ [RetryContinue True]) of
             ((True, result), st2, s2, tr2) \<Rightarrow> retryLoop n env mode cfg filters work st2 s2 tr2
           | ((False, result), st2, s2, tr2) \<Rightarrow> Some (Some result, st2, s2, tr2)))"

text \<open>The end of \<open>runRetriable\<close>, after the loop has stopped.\<close>

definition runRetriable_stopped ::
  "env \<Rightarrow> retry_State \<Rightarrow> sessionWithContext \<Rightarrow> trace
     \<Rightarrow> (any_value \<times> error option) \<times> sessionWithContext \<times> trace" where
  "runRetriable_stopped env st s tr =
     (if LastErrWasRetryable st then
        let err = TransactionExecutionLimit (Errs st) (Causes st)
        in ((None, Some err), s, tr @ [LogError err])
      else
        let err = wrapErrorOpt env (LastErr st)
        in ((None, err), s,
            (case err of
               Some e \<Rightarrow> if isUsageOrConnectivity e then tr @ [LogError e] else tr
             | None \<Rightarrow> tr)))"

definition new_retry_State :: "sessionWithContext \<Rightarrow> retry_State" where
  "new_retry_State s =
     \<lparr>Errs = [], Causes = [], LastErr = None, LastErrWasRetryable = False,
      rs_MaxTransactionRetryTime = MaxTransactionRetryTime (config s),
      rs_Throttle = throttleTime s,
      rs_MaxDeadConnections = MaxConnectionPoolSize (config s),
      rs_DatabaseName = databaseName s\<rparr>"

definition runRetriable ::
  "nat \<Rightarrow> env \<Rightarrow> AccessMode \<Rightarrow> ManagedTransactionWork
     \<Rightarrow> (TransactionConfig \<Rightarrow> TransactionConfig) list \<Rightarrow> sessionWithContext \<Rightarrow> trace
     \<Rightarrow> ((any_value \<times> error option) \<times> sessionWithContext \<times> trace) option" where
  "runRetriable fuel env mode work configurers s tr =
     (if explicitTx s \<noteq> None then
        Some ((None, Some (UsageError ''Session already has a pending transaction'')), s, tr)
      else
        case finalizeAutocommit env s tr of
          (s0, tr0) \<Rightarrow>
            (case notificationFilterRawValuesOf env (notificationFilters s0) of
               Inl err \<Rightarrow> Some ((None, Some err), s0, tr0)
             | Inr sessionNotificationFilters \<Rightarrow>
                 (case validateTransactionConfig (applyConfigurers configurers) of
                    Some err \<Rightarrow> Some ((None, Some err), s0, tr0)
                  | None \<Rightarrow>
                      (case retryLoop fuel env mode (applyConfigurers configurers)
                              sessionNotificationFilters work (new_retry_State s0) s0 tr0 of
                         None \<Rightarrow> None
                       | Some (Some result, st, s1, tr1) \<Rightarrow> Some ((result, None), s1, tr1)
                       | Some (None, st, s1, tr1) \<Rightarrow>
                           Some (runRetriable_stopped env st s1 tr1)))))"

definition ExecuteRead ::
  "nat \<Rightarrow> env \<Rightarrow> ManagedTransactionWork \<Rightarrow> (TransactionConfig \<Rightarrow> TransactionConfig) list
     \<Rightarrow> sessionWithContext \<Rightarrow> trace
     \<Rightarrow> ((any_value \<times> error option) \<times> sessionWithContext \<times> trace) option" where
  "ExecuteRead fuel env work configurers s tr =
     runRetriable fuel env ReadMode work configurers s tr"

definition ExecuteWrite ::
  "nat \<Rightarrow> env \<Rightarrow> ManagedTransactionWork \<Rightarrow> (TransactionConfig \<Rightarrow> TransactionConfig) list
     \<Rightarrow> sessionWithContext \<Rightarrow> trace
     \<Rightarrow> ((any_value \<times> error option) \<times> sessionWithContext \<times> trace) option" where
  "ExecuteWrite fuel env work configurers s tr =
     runRetriable fuel env WriteMode work configurers s tr"

subsection \<open>Closing the session\<close>

text \<open>The two goroutines of \<open>Close\<close> and the two channel reads that join them: the
  cleanups run in either order, and both answers are collected.\<close>

definition concurrentCleanUp ::
  "env \<Rightarrow> trace \<Rightarrow> error option \<times> error option \<times> trace" where
  "concurrentCleanUp env tr =
     (if close_pool_first env tr then
        let p = pool_CleanUp env tr;
            tr1 = tr @ [PoolCleanUp p];
            r = router_CleanUp env tr1
        in (p, r, tr1 @ [RouterCleanUp r])
      else
        let r = router_CleanUp env tr;
            tr1 = tr @ [RouterCleanUp r];
            p = pool_CleanUp env tr1
        in (p, r, tr1 @ [PoolCleanUp p]))"

definition Close ::
  "env \<Rightarrow> sessionWithContext \<Rightarrow> trace \<Rightarrow> error option \<times> sessionWithContext \<times> trace" where
  "Close env s tr =
     (case (case explicitTx s of
              None \<Rightarrow> (None, s, tr)
            | Some tx \<Rightarrow> explicitTransaction_Close env tx s tr) of
        (txErr, s1, tr1) \<Rightarrow>
          (case (case autocommitTx s1 of
                   None \<Rightarrow> (s1, tr1)
                 | Some atx \<Rightarrow> autocommit_discard env atx s1 tr1) of
             (s2, tr2) \<Rightarrow>
               (case concurrentCleanUp env tr2 of
                  (poolErr, routerErr, tr3) \<Rightarrow>
                    (CombineAllErrors env [txErr, poolErr, routerErr], s2,
                     tr3 @ [LogDebug ''Closed'']))))"

text \<open>\<open>getServerInfo\<close>; the server information is read off the borrowed connection.\<close>

definition getServerInfo ::
  "env \<Rightarrow> sessionWithContext \<Rightarrow> trace \<Rightarrow> (error + conn) \<times> sessionWithContext \<times> trace" where
  "getServerInfo env s tr =
     (case resolveHomeDatabase env s tr of
        (Some err, s1, tr1) \<Rightarrow> (Inl (wrapError env err), s1, tr1)
      | (None, s1, tr1) \<Rightarrow>
          (case getServers env ReadMode s1 tr1 of
             (Inl err, tr2) \<Rightarrow> (Inl (wrapError env err), s1, tr2)
           | (Inr servers, tr2) \<Rightarrow>
               let wait = (ConnectionAcquisitionTimeout (config s1) \<noteq> 0);
                   r = pool_Borrow env tr2 servers wait 0;
                   tr3 = tr2 @ [PoolBorrow servers wait 0 r]
               in case r of
                    Inl err \<Rightarrow> (Inl (wrapError env err), s1, tr3)
                  | Inr cn \<Rightarrow> (Inr cn, s1, tr3 @ [PoolReturn cn (pool_Return env tr3 cn)])))"

subsection \<open>Sequences of operations\<close>

text \<open>
  What a caller can do with a session, one call after the other: the methods of the
  session, and commit, rollback and close of the explicit transaction the session holds
  (which reach the session through the transaction's completion callback).
\<close>

datatype operation =
    OpBeginTransaction "(TransactionConfig \<Rightarrow> TransactionConfig) list"
  | OpExecuteRead ManagedTransactionWork "(TransactionConfig \<Rightarrow> TransactionConfig) list"
  | OpExecuteWrite ManagedTransactionWork "(TransactionConfig \<Rightarrow> TransactionConfig) list"
  | OpRun string "(TransactionConfig \<Rightarrow> TransactionConfig) list"
  | OpLastBookmarks
  | OpGetServerInfo
  | OpTxCommit
  | OpTxRollback
  | OpTxClose
  | OpClose

fun exec ::
  "nat \<Rightarrow> env \<Rightarrow> operation \<Rightarrow> sessionWithContext \<Rightarrow> trace
     \<Rightarrow> (sessionWithContext \<times> trace) option" where
  "exec fuel env (OpBeginTransaction cs) s tr = Some (snd (BeginTransaction env cs s tr))"
| "exec fuel env (OpExecuteRead work cs) s tr =
     map_option snd (ExecuteRead fuel env work cs s tr)"
| "exec fuel env (OpExecuteWrite work cs) s tr =
     map_option snd (ExecuteWrite fuel env work cs s tr)"
| "exec fuel env (OpRun cypher cs) s tr = Some (snd (Run env cypher cs s tr))"
| "exec fuel env OpLastBookmarks s tr = Some (snd (LastBookmarks env s tr))"
| "exec fuel env OpGetServerInfo s tr = Some (snd (getServerInfo env s tr))"
| "exec fuel env OpTxCommit s tr =
     (case explicitTx s of
        None \<Rightarrow> Some (s, tr)
      | Some tx \<Rightarrow> Some (snd (explicitTransaction_Commit env tx s tr)))"
| "exec fuel env OpTxRollback s tr =
     (case explicitTx s of
        None \<Rightarrow> Some (s, tr)
      | Some tx \<Rightarrow> Some (snd (explicitTransaction_Rollback env tx s tr)))"
| "exec fuel env OpTxClose s tr =
     (case explicitTx s of
        None \<Rightarrow> Some (s, tr)
      | Some tx \<Rightarrow> Some (snd (explicitTransaction_Close env tx s tr)))"
| "exec fuel env OpClose s tr = Some (snd (Close env s tr))"

fun execAll ::
  "nat \<Rightarrow> env \<Rightarrow> operation list \<Rightarrow> sessionWithContext \<Rightarrow> trace
     \<Rightarrow> (sessionWithContext \<times> trace) option" where
  "execAll fuel env [] s tr = Some (s, tr)"
| "execAll fuel env (x # xs) s tr =
     (case exec fuel env x s tr of
        None \<Rightarrow> None
      | Some (s1, tr1) \<Rightarrow> execAll fuel env xs s1 tr1)"

subsection \<open>Observing traces\<close>

text \<open>The kind of an event: which collaborator call it records. A lookup of the default
  database name that fails and one that returns a name are told apart.\<close>

datatype event_kind =
    KLogError | KLogWarn | KLogDebug
  | KBorrow | KReturn | KPoolCleanUp
  | KServers | KLookupFailed | KLookupOk | KRouterCleanUp
  | KSelectDatabase | KTxBegin | KTxCommit | KTxRollback | KRun | KBookmark | KResult
  | KManagerGet | KManagerUpdate
  | KWork | KContinue | KOnFailure

fun kind :: "event \<Rightarrow> event_kind" where
  "kind (LogError e) = KLogError"
| "kind (LogWarn m e) = KLogWarn"
| "kind (LogDebug m) = KLogDebug"
| "kind (PoolBorrow servers wait t r) = KBorrow"
| "kind (PoolReturn c r) = KReturn"
| "kind (PoolCleanUp r) = KPoolCleanUp"
| "kind (RouterReaders db r) = KServers"
| "kind (RouterWriters db r) = KServers"
| "kind (RouterGetNameOfDefaultDatabase bms user (Inl e)) = KLookupFailed"
| "kind (RouterGetNameOfDefaultDatabase bms user (Inr name)) = KLookupOk"
| "kind (RouterCleanUp r) = KRouterCleanUp"
| "kind (ConnSelectDatabase c db) = KSelectDatabase"
| "kind (ConnTxBegin c txc r) = KTxBegin"
| "kind (ConnTxCommit c h r) = KTxCommit"
| "kind (ConnTxRollback c h r) = KTxRollback"
| "kind (ConnRun c cypher txc r) = KRun"
| "kind (ConnBookmark c r) = KBookmark"
| "kind (ResultBuffer c) = KResult"
| "kind (ResultConsume c) = KResult"
| "kind (ManagerGetBookmarks db r) = KManagerGet"
| "kind (ManagerUpdateBookmarks db sent new r) = KManagerUpdate"
| "kind (Work c h r) = KWork"
| "kind (RetryContinue b) = KContinue"
| "kind (RetryOnFailure c e b) = KOnFailure"

text \<open>The events a call has added to the trace it was given.\<close>

definition newEvents :: "trace \<Rightarrow> trace \<Rightarrow> trace" where
  "newEvents tr tr' = drop (length tr) tr'"

text \<open>\<open>onlyKinds ks evs\<close>: the kinds of the events \<open>evs\<close> are all among \<open>ks\<close>.\<close>

definition onlyKinds :: "event_kind list \<Rightarrow> trace \<Rightarrow> bool" where
  "onlyKinds ks evs = list_all (\<lambda>e. kind e \<in> set ks) evs"

text \<open>\<open>emits ks tr tr'\<close>: the trace \<open>tr'\<close> is \<open>tr\<close> followed by events whose kinds are all among
  \<open>ks\<close>.\<close>

definition emits :: "event_kind list \<Rightarrow> trace \<Rightarrow> trace \<Rightarrow> bool" where
  "emits ks tr tr' \<longleftrightarrow> take (length tr) tr' = tr \<and> onlyKinds ks (newEvents tr tr')"

text \<open>How many events of a kind a trace holds.\<close>

definition countKind :: "event_kind \<Rightarrow> trace \<Rightarrow> nat" where
  "countKind k tr = length (filter (\<lambda>e. kind e = k) tr)"

text \<open>The two transaction fields of a session, and the two fields that
  \<open>resolveHomeDatabase\<close> writes.\<close>

definition txFields ::
  "sessionWithContext \<Rightarrow> explicitTransaction option \<times> autocommitTransaction option" where
  "txFields s = (explicitTx s, autocommitTx s)"

definition dbFields :: "sessionWithContext \<Rightarrow> bool \<times> string" where
  "dbFields s = (resolveHomeDb s, databaseName s)"

text \<open>The invariant of the session: it holds at most one of the two transactions.\<close>

definition atMostOneTx :: "sessionWithContext \<Rightarrow> bool" where
  "atMostOneTx s \<longleftrightarrow> explicitTx s = None \<or> autocommitTx s = None"

text \<open>How many successful lookups of the default database name a session may still
  perform: one while the name is unresolved, none afterwards.\<close>

definition lookupBudget :: "sessionWithContext \<Rightarrow> nat" where
  "lookupBudget s = (if resolveHomeDb s then 1 else 0)"

text \<open>
  \<open>lookupsWithin s s' evs\<close>: the events \<open>evs\<close> that lead from session \<open>s\<close> to \<open>s'\<close> respect
  the budget (every successful lookup of the default database name uses it up), and a
  session whose name is resolved performs no lookup at all and keeps its name.
  \<open>resolvesOnce s tr s' tr'\<close> says so of the events added to \<open>tr\<close>.
\<close>

definition lookupsWithin :: "sessionWithContext \<Rightarrow> sessionWithContext \<Rightarrow> trace \<Rightarrow> bool" where
  "lookupsWithin s s' evs \<longleftrightarrow>
     countKind KLookupOk evs + lookupBudget s' \<le> lookupBudget s \<and>
     (if resolveHomeDb s then True
      else countKind KLookupFailed evs = 0 \<and> databaseName s' = databaseName s)"

definition resolvesOnce ::
  "sessionWithContext \<Rightarrow> trace \<Rightarrow> sessionWithContext \<Rightarrow> trace \<Rightarrow> bool" where
  "resolvesOnce s tr s' tr' \<longleftrightarrow>
     take (length tr) tr' = tr \<and> lookupsWithin s s' (newEvents tr tr')"

text \<open>The kinds of events of the stages of an operation.\<close>

definition connKinds :: "event_kind list" where
  "connKinds = [KLogDebug, KManagerGet, KLookupFailed, KLookupOk, KServers, KBorrow, KReturn,
                KSelectDatabase]"

definition attemptKinds :: "event_kind list" where
  "attemptKinds = [KManagerGet, KTxBegin, KWork, KTxCommit, KOnFailure, KBookmark,
                   KManagerUpdate, KLogWarn]"

definition finalizeKinds :: "event_kind list" where
  "finalizeKinds = [KResult, KBookmark, KManagerUpdate, KLogWarn, KReturn]"

subsection \<open>A concrete environment\<close>

text \<open>Collaborators that always succeed, on a server that returns the bookmark \<open>b1\<close>;
  a session on the database \<open>db\<close>; and variations used to run the operations on
  concrete inputs.\<close>

definition firstError :: "error option list \<Rightarrow> error option" where
  "firstError es = (case filter (\<lambda>e. e \<noteq> None) es of [] \<Rightarrow> None | e # _ \<Rightarrow> e)"

definition okEnv :: env where
  "okEnv =
     \<lparr>wrapError = (\<lambda>e. e),
      CombineAllErrors = firstError,
      notificationFilterRawValuesOf = (\<lambda>f. Inr []),
      DefaultDatabase = [],
      DefaultLivenessCheckThreshold = 1000,
      pool_Borrow = (\<lambda>tr servers wait t. Inr (Conn (length tr) True)),
      pool_Return = (\<lambda>tr c. None),
      pool_CleanUp = (\<lambda>tr. None),
      router_Readers = (\<lambda>tr db. Inr [''reader'']),
      router_Writers = (\<lambda>tr db. Inr [''writer'']),
      router_GetNameOfDefaultDatabase = (\<lambda>tr bms user. Inr ''home''),
      router_CleanUp = (\<lambda>tr. None),
      conn_TxBegin = (\<lambda>tr c txc. Inr (length tr)),
      conn_TxCommit = (\<lambda>tr c h. None),
      conn_TxRollback = (\<lambda>tr c h. None),
      conn_Run = (\<lambda>tr c cypher txc. Inr (length tr)),
      conn_Bookmark = (\<lambda>tr c. (''b1'', [])),
      manager_GetBookmarks = (\<lambda>tr db. Inr []),
      manager_UpdateBookmarks = (\<lambda>tr db sent new. None),
      retry_Continue = (\<lambda>tr st. (LastErr st = None, st)),
      retry_OnFailure =
        (\<lambda>tr st c err isCommitting.
           st\<lparr>Errs := Errs st @ [err], LastErr := Some err,
              LastErrWasRetryable := False\<rparr>),
      close_pool_first = (\<lambda>tr. True)\<rparr>"

definition okConfig :: Config where
  "okConfig =
     \<lparr>MaxTransactionRetryTime = 30000000000, ConnectionAcquisitionTimeout = 0,
      MaxConnectionPoolSize = 100, cfg_FetchSize = 1000\<rparr>"

definition okSession :: sessionWithContext where
  "okSession =
     \<lparr>config = okConfig, defaultMode = WriteMode,
      bookmarks = newSessionBookmarks False [''b0''],
      databaseName = ''db'', impersonatedUser = [], resolveHomeDb = False,
      explicitTx = None, autocommitTx = None, throttleTime = 1000000000,
      fetchSize = 1000, notificationFilters = None\<rparr>"

definition okExplicitTx :: explicitTransaction where
  "okExplicitTx =
     \<lparr>etx_conn = Conn 0 True, etx_fetchSize = 1000, etx_txHandle = 7, etx_err = None,
      etx_beginBookmarks = [''b0'']\<rparr>"

definition okAutocommitTx :: autocommitTransaction where
  "okAutocommitTx = \<lparr>atx_conn = Conn 1 True, atx_runBookmarks = [''b0'']\<rparr>"

section \<open>Properties\<close>

subsection \<open>BeginTransaction while an explicit transaction is open\<close>

text \<open>
  Claim C4. \<open>BeginTransaction\<close> called while an explicit transaction is already open
  returns a usage error and changes nothing: the session (with its open explicit
  transaction and its bookmarks) is returned as it was, and the only thing the call does
  is to log the error, so no connection is borrowed from the pool and no server-side
  transaction is begun.
\<close>

theorem BeginTransaction_pending_changes_nothing:
  assumes "explicitTx s \<noteq> None"
  shows "BeginTransaction env configurers s tr =
           (Inl (UsageError ''Session already has a pending transaction''), s,
            tr @ [LogError (UsageError ''Session already has a pending transaction'')])"
  using assms by (simp add: BeginTransaction_def Let_def)

theorem BeginTransaction_pending_changes_nothing_witness:
  "explicitTx (okSession\<lparr>explicitTx := Some okExplicitTx\<rparr>) \<noteq> None \<and>
   BeginTransaction okEnv [] (okSession\<lparr>explicitTx := Some okExplicitTx\<rparr>) [] =
     (Inl (UsageError ''Session already has a pending transaction''),
      okSession\<lparr>explicitTx := Some okExplicitTx\<rparr>,
      [LogError (UsageError ''Session already has a pending transaction'')])"
  using BeginTransaction_pending_changes_nothing
          [of "okSession\<lparr>explicitTx := Some okExplicitTx\<rparr>" okEnv "[]" "[]"]
  by simp

end
